theory Spec2Isabelle
  imports Main "HOL-Library.Word"
begin

section \<open>The relay command of resocks (relay.go)\<close>

text \<open>
  The development follows relay.go: the trust-policy switch \<open>clientTLSConfig\<close>, one
  connect-back attempt \<open>connectBackAndRelay\<close>, and the reconnect loop of
  \<open>runRemoteProxyRelay\<close>. Everything the code does to the outside (dialing, printing,
  closing, sleeping) is recorded as a trace of events; what the outside answers is an
  input of the model.
\<close>

subsection \<open>Errors\<close>

text \<open>
  A Go \<open>error\<close>. \<open>Errorf msg\<close> is \<open>fmt.Errorf(msg)\<close> without a verb, and also stands for
  any error coming from a library; \<open>Wrap stage err\<close> is \<open>fmt.Errorf("stage: %w", err)\<close>.
  \<open>Error\<close> is the message of an error. A returned \<open>nil\<close> is \<open>None\<close> of
  \<open>error option\<close>.
\<close>

datatype error = Errorf string | Wrap string error

fun Error :: "error \<Rightarrow> string" where
  "Error (Errorf msg) = msg"
| "Error (Wrap stage err) = stage @ '': '' @ Error err"

subsection \<open>TLS configuration\<close>

text \<open>
  \<open>time.Duration\<close> is a signed 64-bit count of nanoseconds. The code only compares it
  with zero and hands it on.
\<close>

type_synonym Duration = "64 word"

datatype certificate = Certificate string

datatype cert_pool = CertPool "string list"

text \<open>
  \<open>tls.Config\<close>, with the two fields that relay.go writes, \<open>InsecureSkipVerify\<close> and
  \<open>ServerName\<close>, and the fields that hold a client's identity and what it trusts.
  In \<open>RootCAs\<close>, \<open>None\<close> is the nil pointer.
\<close>

record tls_config =
  Certificates :: "certificate list"
  RootCAs :: "cert_pool option"
  ServerName :: string
  InsecureSkipVerify :: bool
  MinVersion :: "16 word"

text \<open>The zero value \<open>tls.Config{}\<close>.\<close>

definition tls_Config :: tls_config where
  "tls_Config =
     \<lparr>Certificates = [], RootCAs = None, ServerName = [], InsecureSkipVerify = False,
      MinVersion = 0\<rparr>"

text \<open>
  \<open>ParseConnectionKey\<close> and \<open>ClientTLSConfig\<close> are defined in another file of the
  package; they are parameters here. Both are pure and return a value or an error.
  The \<open>switch\<close> has no tag: its cases are tried from top to bottom, and \<open>default\<close>,
  though written first, runs when no case holds.
\<close>

definition clientTLSConfig ::
  "(string \<Rightarrow> error + 'k) \<Rightarrow> ('k \<Rightarrow> error + tls_config) \<Rightarrow> string \<Rightarrow> bool
     \<Rightarrow> error + tls_config" where
  "clientTLSConfig ParseConnectionKey ClientTLSConfig connectionKey insecure =
     (if \<not> insecure \<and> connectionKey = [] then
        Inl (Errorf ''connection key is required'')
      else if insecure \<and> connectionKey = [] then
        Inr (tls_Config\<lparr>InsecureSkipVerify := True\<rparr>)
      else if insecure \<and> connectionKey \<noteq> [] then
        (case ParseConnectionKey connectionKey of
           Inl err \<Rightarrow> Inl (Wrap ''parse connection key'' err)
         | Inr key \<Rightarrow>
             (case ClientTLSConfig key of
                Inl err \<Rightarrow> Inl (Wrap ''configure TLS'' err)
              | Inr cfg \<Rightarrow> Inr (cfg\<lparr>InsecureSkipVerify := True, ServerName := []\<rparr>)))
      else
        (case ParseConnectionKey connectionKey of
           Inl err \<Rightarrow> Inl (Wrap ''parse connection key'' err)
         | Inr key \<Rightarrow>
             (case ClientTLSConfig key of
                Inl err \<Rightarrow> Inl (Wrap ''configure TLS'' err)
              | Inr cfg \<Rightarrow> Inr cfg)))"

subsection \<open>One connect-back attempt\<close>

text \<open>
  A connection is known by its remote address, a multiplexed session by the connection
  it runs over.
\<close>

datatype conn = Conn (RemoteAddr: string)

datatype session = Session conn

datatype arg = ArgAddr string | ArgError error | ArgDuration Duration

text \<open>
  The calls that reach outside the program, each with its arguments and, where it has
  one, its result, in the order in which they happen.
\<close>

datatype event =
    DialWithDialer Duration string tls_config "error + conn"
  | Printf string arg
  | YamuxServer conn "error option"
  | Socks5New "error option"
  | Serve session "error option"
  | CloseSession session
  | CloseConn conn
  | Sleep Duration

text \<open>
  What the outside answers during one attempt: the result of \<open>tls.DialWithDialer\<close>, the
  error of \<open>yamux.Server\<close>, of \<open>socks5.New\<close> and of \<open>Serve\<close> (\<open>None\<close> is nil). An answer is
  only read if the call is made.
\<close>

record attempt =
  dial_result :: "error + conn"
  yamux_result :: "error option"
  socks_result :: "error option"
  serve_result :: "error option"

definition newline :: string where
  "newline = [CHR 0x0A]"

text \<open>
  Each \<open>return\<close> runs the deferred calls registered so far, last registered first; the
  list \<open>deferred\<close> is kept in that order.
\<close>

definition connectBackAndRelay ::
  "attempt \<Rightarrow> tls_config \<Rightarrow> string \<Rightarrow> Duration \<Rightarrow> error option \<times> event list" where
  "connectBackAndRelay w tlsConfig connectBackAddr timeout =
     (let dialed = [DialWithDialer timeout connectBackAddr tlsConfig (dial_result w)] in
      case dial_result w of
        Inl err \<Rightarrow> (Some (Wrap ''dial'' err), dialed)
      | Inr conn \<Rightarrow>
          (let connected =
                 dialed @ [Printf (''connected to %s'' @ newline) (ArgAddr (RemoteAddr conn))];
               deferred = [CloseConn conn];
               muxed = connected @ [YamuxServer conn (yamux_result w)] in
           case yamux_result w of
             Some err \<Rightarrow> (Some (Wrap ''initialize multiplexer'' err), muxed @ deferred)
           | None \<Rightarrow>
               (let yamuxServer = Session conn;
                    deferred = CloseSession yamuxServer # deferred;
                    created = muxed @ [Socks5New (socks_result w)] in
                case socks_result w of
                  Some err \<Rightarrow>
                    (Some (Wrap ''initialize socks5 server'' err), created @ deferred)
                | None \<Rightarrow>
                    (let served = created @ [Serve yamuxServer (serve_result w)] in
                     case serve_result w of
                       Some err \<Rightarrow> (Some (Wrap ''socks5 server'' err), served @ deferred)
                     | None \<Rightarrow> (None, served @ deferred)))))"

subsection \<open>The reconnect loop\<close>

text \<open>
  The loop has no bound of its own. \<open>relayLoop\<close> runs at most \<open>fuel\<close> iterations:
  \<open>Returned r\<close> is the value of a \<open>return\<close> reached within them, \<open>Running\<close> says that the
  loop is still going after them. \<open>world i\<close> holds the answers of the outside during
  iteration \<open>i\<close>. The trace is what has happened so far in either case.
\<close>

datatype outcome = Returned "error option" | Running

fun relayLoop ::
  "nat \<Rightarrow> (nat \<Rightarrow> attempt) \<Rightarrow> nat \<Rightarrow> tls_config \<Rightarrow> string \<Rightarrow> Duration \<Rightarrow> Duration
     \<Rightarrow> outcome \<times> event list" where
  "relayLoop 0 world i tlsConfig connectBackAddr timeout reconnectAfter = (Running, [])"
| "relayLoop (Suc fuel) world i tlsConfig connectBackAddr timeout reconnectAfter =
     (case connectBackAndRelay (world i) tlsConfig connectBackAddr timeout of
        (err, attempted) \<Rightarrow>
          if err \<noteq> None \<and> reconnectAfter = 0 then (Returned err, attempted)
          else
            (let reported =
                   (case err of
                      Some e \<Rightarrow> attempted @ [Printf (''error: %v'' @ newline) (ArgError e)]
                    | None \<Rightarrow> attempted) in
             if reconnectAfter = 0 then (Returned None, reported)
             else
               (let slept =
                      reported @
                      [Printf (''reconnecting after %v'' @ newline) (ArgDuration reconnectAfter),
                       Sleep reconnectAfter] in
                case relayLoop fuel world (Suc i) tlsConfig connectBackAddr timeout
                       reconnectAfter of
                  (r, later) \<Rightarrow> (r, slept @ later))))"

definition runRemoteProxyRelay ::
  "nat \<Rightarrow> (string \<Rightarrow> error + 'k) \<Rightarrow> ('k \<Rightarrow> error + tls_config) \<Rightarrow> (nat \<Rightarrow> attempt)
     \<Rightarrow> string \<Rightarrow> string \<Rightarrow> Duration \<Rightarrow> Duration \<Rightarrow> bool \<Rightarrow> outcome \<times> event list" where
  "runRemoteProxyRelay fuel ParseConnectionKey ClientTLSConfig world connectBackAddr
       connectionKey timeout reconnectAfter insecure =
     (case clientTLSConfig ParseConnectionKey ClientTLSConfig connectionKey insecure of
        Inl err \<Rightarrow> (Returned (Some (Wrap ''build TLS config'' err)), [])
      | Inr tlsConfig \<Rightarrow>
          relayLoop fuel world 0 tlsConfig connectBackAddr timeout reconnectAfter)"

subsection \<open>Reading a trace\<close>

text \<open>
  The functions below only read a trace: which events are dials, which delays were
  slept, which errors were printed by the loop, which resources an event acquires or
  releases, and so which resources are open after a trace.
\<close>

fun is_dial :: "event \<Rightarrow> bool" where
  "is_dial (DialWithDialer timeout addr cfg r) = True"
| "is_dial e = False"

fun sleep_of :: "event \<Rightarrow> Duration list" where
  "sleep_of (Sleep d) = [d]"
| "sleep_of e = []"

definition sleeps :: "event list \<Rightarrow> Duration list" where
  "sleeps t = concat (map sleep_of t)"

fun report_of :: "event \<Rightarrow> error list" where
  "report_of (Printf fmt (ArgError e)) = (if fmt = ''error: %v'' @ newline then [e] else [])"
| "report_of e = []"

definition reports :: "event list \<Rightarrow> error list" where
  "reports t = concat (map report_of t)"

datatype resource = Connection conn | Multiplexed session

fun acquires :: "event \<Rightarrow> resource list" where
  "acquires (DialWithDialer timeout addr cfg (Inr c)) = [Connection c]"
| "acquires (YamuxServer c None) = [Multiplexed (Session c)]"
| "acquires e = []"

fun releases :: "event \<Rightarrow> resource list" where
  "releases (CloseSession s) = [Multiplexed s]"
| "releases (CloseConn c) = [Connection c]"
| "releases e = []"

definition acquired :: "event list \<Rightarrow> resource list" where
  "acquired t = concat (map acquires t)"

definition released :: "event list \<Rightarrow> resource list" where
  "released t = concat (map releases t)"

text \<open>
  \<open>hold h e\<close> is what is open after event \<open>e\<close> when \<open>h\<close> was open before it, the most
  recently acquired resource first; \<open>active t\<close> is what is open after the trace \<open>t\<close>,
  starting with nothing open.
\<close>

definition hold :: "resource list \<Rightarrow> event \<Rightarrow> resource list" where
  "hold h e = acquires e @ foldr remove1 (releases e) h"

definition active :: "event list \<Rightarrow> resource list" where
  "active t = foldl hold [] t"

text \<open>
  At most one relay session: nothing is open, or one connection, or one connection
  with the one multiplexed session that runs over it.
\<close>

fun one_session :: "resource list \<Rightarrow> bool" where
  "one_session [] = True"
| "one_session [Connection c] = True"
| "one_session [Multiplexed s, Connection c] = (s = Session c)"
| "one_session h = False"

text \<open>
  \<open>permitted h e\<close> says in which state of the open resources an event may happen, and
  \<open>orderly h t\<close> that every event of \<open>t\<close> happens in such a state. Both serve the proof
  of the session invariant.
\<close>

fun permitted :: "resource list \<Rightarrow> event \<Rightarrow> bool" where
  "permitted h (DialWithDialer timeout addr cfg r) = (h = [])"
| "permitted h (YamuxServer c r) = (h = [Connection c])"
| "permitted h (Serve s r) = (case s of Session c \<Rightarrow> h = [Multiplexed s, Connection c])"
| "permitted h (CloseSession s) = (case s of Session c \<Rightarrow> h = [Multiplexed s, Connection c])"
| "permitted h (CloseConn c) = (h = [Connection c])"
| "permitted h e = True"

fun orderly :: "resource list \<Rightarrow> event list \<Rightarrow> bool" where
  "orderly h [] = True"
| "orderly h (e # es) = (permitted h e \<and> orderly (hold h e) es)"

text \<open>
  What one iteration of the loop adds to the trace when reconnecting is enabled: the
  attempt, the report of its error if it has one, the announcement and the sleep.
\<close>

definition iteration ::
  "attempt \<Rightarrow> tls_config \<Rightarrow> string \<Rightarrow> Duration \<Rightarrow> Duration \<Rightarrow> event list" where
  "iteration w tlsConfig connectBackAddr timeout reconnectAfter =
     snd (connectBackAndRelay w tlsConfig connectBackAddr timeout)
     @ (case fst (connectBackAndRelay w tlsConfig connectBackAddr timeout) of
          Some e \<Rightarrow> [Printf (''error: %v'' @ newline) (ArgError e)]
        | None \<Rightarrow> [])
     @ [Printf (''reconnecting after %v'' @ newline) (ArgDuration reconnectAfter),
        Sleep reconnectAfter]"

subsection \<open>Concrete collaborators\<close>

text \<open>
  A key parser, a configuration builder and three behaviours of the outside, to run
  the functions above on concrete inputs. The parser accepts keys of four characters;
  the builder refuses one key and otherwise makes a verifying configuration with one
  client certificate. In \<open>refusing\<close> every dial fails, in \<open>resetting\<close> every session is
  served and ends with an error, in \<open>closing\<close> every session ends cleanly.
\<close>

definition sample_ParseConnectionKey :: "string \<Rightarrow> error + string" where
  "sample_ParseConnectionKey connectionKey =
     (if length connectionKey = 4 then Inr connectionKey
      else Inl (Errorf ''invalid connection key''))"

definition sample_config :: "string \<Rightarrow> tls_config" where
  "sample_config key =
     \<lparr>Certificates = [Certificate key], RootCAs = Some (CertPool [key]),
      ServerName = ''resocks-server'', InsecureSkipVerify = False, MinVersion = 0x0304\<rparr>"

definition sample_ClientTLSConfig :: "string \<Rightarrow> error + tls_config" where
  "sample_ClientTLSConfig key =
     (if key = ''0000'' then Inl (Errorf ''weak key'') else Inr (sample_config key))"

definition refusing :: "nat \<Rightarrow> attempt" where
  "refusing i =
     \<lparr>dial_result = Inl (Errorf ''connection refused''), yamux_result = None,
      socks_result = None, serve_result = None\<rparr>"

definition resetting :: "nat \<Rightarrow> attempt" where
  "resetting i =
     \<lparr>dial_result = Inr (Conn ''203.0.113.7:4080''), yamux_result = None,
      socks_result = None, serve_result = Some (Errorf ''connection reset'')\<rparr>"

definition closing :: "nat \<Rightarrow> attempt" where
  "closing i =
     \<lparr>dial_result = Inr (Conn ''203.0.113.7:4080''), yamux_result = None,
      socks_result = None, serve_result = None\<rparr>"

section \<open>Properties\<close>

subsection \<open>The trust policy\<close>

lemma sample_parse_k3y: "sample_ParseConnectionKey ''k3y!'' = Inr ''k3y!''"
  by (simp add: sample_ParseConnectionKey_def)

lemma sample_build_k3y: "sample_ClientTLSConfig ''k3y!'' = Inr (sample_config ''k3y!'')"
  by (simp add: sample_ClientTLSConfig_def)

lemma sample_tls_k3y:
  "clientTLSConfig sample_ParseConnectionKey sample_ClientTLSConfig ''k3y!'' False =
     Inr (sample_config ''k3y!'')"
  by (simp add: clientTLSConfig_def sample_parse_k3y sample_build_k3y)

text \<open>
  C1: the decision table of \<open>clientTLSConfig\<close>. For a non-empty key that parses and
  from which \<open>ClientTLSConfig\<close> builds the configuration \<open>cfg\<close>: without \<open>insecure\<close>
  the result is \<open>cfg\<close> itself, the verifying configuration with the client identity
  of the key; with \<open>insecure\<close> the result carries the same certificates, skips
  verification and has an empty \<open>ServerName\<close>. With \<open>insecure\<close> and an empty key the
  result is the zero configuration with verification skipped, without certificates.
  Without \<open>insecure\<close> and with an empty key there is no configuration.
\<close>

theorem clientTLSConfig_decision_table:
  assumes "connectionKey \<noteq> []"
    and "ParseConnectionKey connectionKey = Inr key"
    and "ClientTLSConfig key = Inr cfg"
  shows "clientTLSConfig ParseConnectionKey ClientTLSConfig connectionKey False = Inr cfg
    \<and> (\<exists>cfg'. clientTLSConfig ParseConnectionKey ClientTLSConfig connectionKey True = Inr cfg'
          \<and> Certificates cfg' = Certificates cfg \<and> InsecureSkipVerify cfg'
          \<and> ServerName cfg' = [])
    \<and> (\<exists>cfg'. clientTLSConfig ParseConnectionKey ClientTLSConfig [] True = Inr cfg'
          \<and> cfg' = tls_Config\<lparr>InsecureSkipVerify := True\<rparr>
          \<and> Certificates cfg' = [] \<and> InsecureSkipVerify cfg')
    \<and> clientTLSConfig ParseConnectionKey ClientTLSConfig [] False =
        Inl (Errorf ''connection key is required'')"
  using assms by (simp add: clientTLSConfig_def tls_Config_def)

theorem clientTLSConfig_decision_table_witness:
  "clientTLSConfig sample_ParseConnectionKey sample_ClientTLSConfig ''k3y!'' False =
     Inr (sample_config ''k3y!'')
   \<and> (\<exists>cfg'. clientTLSConfig sample_ParseConnectionKey sample_ClientTLSConfig ''k3y!'' True =
               Inr cfg'
          \<and> Certificates cfg' = [Certificate ''k3y!''] \<and> InsecureSkipVerify cfg'
          \<and> ServerName cfg' = [])
   \<and> InsecureSkipVerify (sample_config ''k3y!'') = False"
proof -
  have n: "''k3y!'' \<noteq> []" by simp
  from clientTLSConfig_decision_table
         [of "''k3y!''" sample_ParseConnectionKey "''k3y!''" sample_ClientTLSConfig
             "sample_config ''k3y!''", OF n sample_parse_k3y sample_build_k3y]
  show ?thesis by (simp add: sample_config_def)
qed

text \<open>
  C10: for a non-empty key that parses and from which \<open>ClientTLSConfig\<close> builds
  \<open>cfg\<close>, the configuration of the insecure case is the one of the secure case, which
  is \<open>cfg\<close>, with \<open>InsecureSkipVerify\<close> set and \<open>ServerName\<close> emptied; every other
  field is the same.
\<close>

theorem insecure_with_key_frame:
  assumes "connectionKey \<noteq> []"
    and "ParseConnectionKey connectionKey = Inr key"
    and "ClientTLSConfig key = Inr cfg"
  shows "\<exists>secure relaxed.
      clientTLSConfig ParseConnectionKey ClientTLSConfig connectionKey False = Inr secure
    \<and> clientTLSConfig ParseConnectionKey ClientTLSConfig connectionKey True = Inr relaxed
    \<and> secure = cfg
    \<and> relaxed = secure\<lparr>InsecureSkipVerify := True, ServerName := []\<rparr>
    \<and> Certificates relaxed = Certificates secure
    \<and> RootCAs relaxed = RootCAs secure
    \<and> MinVersion relaxed = MinVersion secure"
  using assms by (simp add: clientTLSConfig_def)

theorem insecure_with_key_frame_witness:
  "\<exists>secure relaxed.
      clientTLSConfig sample_ParseConnectionKey sample_ClientTLSConfig ''k3y!'' False =
        Inr secure
    \<and> clientTLSConfig sample_ParseConnectionKey sample_ClientTLSConfig ''k3y!'' True =
        Inr relaxed
    \<and> secure = sample_config ''k3y!''
    \<and> relaxed = secure\<lparr>InsecureSkipVerify := True, ServerName := []\<rparr>
    \<and> Certificates relaxed = Certificates secure
    \<and> RootCAs relaxed = RootCAs secure
    \<and> MinVersion relaxed = MinVersion secure"
proof -
  have n: "''k3y!'' \<noteq> []" by simp
  show ?thesis
    by (rule insecure_with_key_frame
         [of "''k3y!''" sample_ParseConnectionKey "''k3y!''" sample_ClientTLSConfig
             "sample_config ''k3y!''", OF n sample_parse_k3y sample_build_k3y])
qed

text \<open>
  C2: with \<open>insecure = false\<close> and an empty connection key the run fails with the
  "connection key is required" error, whatever the timeout, the reconnect delay, the
  target and the outside are, and it has dialed nothing when it returns: the result
  is there with no iteration of the loop at all.
\<close>

theorem key_required_before_any_dial:
  "runRemoteProxyRelay fuel ParseConnectionKey ClientTLSConfig world connectBackAddr []
       timeout reconnectAfter False =
     (Returned (Some (Wrap ''build TLS config'' (Errorf ''connection key is required''))), [])
   \<and> clientTLSConfig ParseConnectionKey ClientTLSConfig [] False =
       Inl (Errorf ''connection key is required'')
   \<and> Error (Wrap ''build TLS config'' (Errorf ''connection key is required'')) =
       ''build TLS config: connection key is required''"
  by (simp add: runRemoteProxyRelay_def clientTLSConfig_def)

text \<open>
  C5: an error of \<open>clientTLSConfig\<close> ends the run at once, for every reconnect delay
  and before any iteration: the run returns it wrapped with "build TLS config" and the
  trace is empty. For a non-empty key an error of the parser arrives wrapped with
  "parse connection key", an error of the builder with "configure TLS"; the empty
  key without \<open>insecure\<close> gives "connection key is required".
\<close>

theorem startup_errors_are_fatal:
  "(clientTLSConfig ParseConnectionKey ClientTLSConfig connectionKey insecure = Inl err \<longrightarrow>
      runRemoteProxyRelay fuel ParseConnectionKey ClientTLSConfig world connectBackAddr
        connectionKey timeout reconnectAfter insecure =
      (Returned (Some (Wrap ''build TLS config'' err)), []))
   \<and> (connectionKey \<noteq> [] \<and> ParseConnectionKey connectionKey = Inl perr \<longrightarrow>
      runRemoteProxyRelay fuel ParseConnectionKey ClientTLSConfig world connectBackAddr
        connectionKey timeout reconnectAfter insecure =
      (Returned (Some (Wrap ''build TLS config'' (Wrap ''parse connection key'' perr))), []))
   \<and> (connectionKey \<noteq> [] \<and> ParseConnectionKey connectionKey = Inr key
        \<and> ClientTLSConfig key = Inl cerr \<longrightarrow>
      runRemoteProxyRelay fuel ParseConnectionKey ClientTLSConfig world connectBackAddr
        connectionKey timeout reconnectAfter insecure =
      (Returned (Some (Wrap ''build TLS config'' (Wrap ''configure TLS'' cerr))), []))
   \<and> (connectionKey = [] \<and> \<not> insecure \<longrightarrow>
      runRemoteProxyRelay fuel ParseConnectionKey ClientTLSConfig world connectBackAddr
        connectionKey timeout reconnectAfter insecure =
      (Returned (Some (Wrap ''build TLS config'' (Errorf ''connection key is required''))), []))"
  by (simp add: runRemoteProxyRelay_def clientTLSConfig_def)

theorem startup_errors_are_fatal_witness:
  "runRemoteProxyRelay 7 sample_ParseConnectionKey sample_ClientTLSConfig closing
     ''relay.example:4080'' ''bad'' 5000000000 1000000000 True =
     (Returned (Some (Wrap ''build TLS config''
        (Wrap ''parse connection key'' (Errorf ''invalid connection key'')))), [])
   \<and> runRemoteProxyRelay 0 sample_ParseConnectionKey sample_ClientTLSConfig closing
     ''relay.example:4080'' ''bad'' 5000000000 0 False =
     (Returned (Some (Wrap ''build TLS config''
        (Wrap ''parse connection key'' (Errorf ''invalid connection key'')))), [])
   \<and> runRemoteProxyRelay 7 sample_ParseConnectionKey sample_ClientTLSConfig closing
     ''relay.example:4080'' ''0000'' 5000000000 1000000000 False =
     (Returned (Some (Wrap ''build TLS config''
        (Wrap ''configure TLS'' (Errorf ''weak key'')))), [])
   \<and> runRemoteProxyRelay 7 sample_ParseConnectionKey sample_ClientTLSConfig closing
     ''relay.example:4080'' [] 5000000000 1000000000 False =
     (Returned (Some (Wrap ''build TLS config'' (Errorf ''connection key is required''))), [])"
proof -
  have failed: "clientTLSConfig sample_ParseConnectionKey sample_ClientTLSConfig ''bad'' True =
      Inl (Wrap ''parse connection key'' (Errorf ''invalid connection key''))"
    by (simp add: clientTLSConfig_def sample_ParseConnectionKey_def)
  have bad: "''bad'' \<noteq> [] \<and>
      sample_ParseConnectionKey ''bad'' = Inl (Errorf ''invalid connection key'')"
    by (simp add: sample_ParseConnectionKey_def)
  have weak: "''0000'' \<noteq> [] \<and> sample_ParseConnectionKey ''0000'' = Inr ''0000''
      \<and> sample_ClientTLSConfig ''0000'' = Inl (Errorf ''weak key'')"
    by (simp add: sample_ParseConnectionKey_def sample_ClientTLSConfig_def)
  have none: "([]::string) = [] \<and> \<not> False" by simp
  from failed
    startup_errors_are_fatal
      [where ParseConnectionKey = sample_ParseConnectionKey
         and ClientTLSConfig = sample_ClientTLSConfig and connectionKey = "''bad''"
         and insecure = True and fuel = 7 and world = closing
         and connectBackAddr = "''relay.example:4080''" and timeout = 5000000000
         and reconnectAfter = 1000000000
         and err = "Wrap ''parse connection key'' (Errorf ''invalid connection key'')"]
  have first: "runRemoteProxyRelay 7 sample_ParseConnectionKey sample_ClientTLSConfig closing
     ''relay.example:4080'' ''bad'' 5000000000 1000000000 True =
     (Returned (Some (Wrap ''build TLS config''
        (Wrap ''parse connection key'' (Errorf ''invalid connection key'')))), [])"
    by blast
  from bad
    startup_errors_are_fatal
      [where ParseConnectionKey = sample_ParseConnectionKey
         and ClientTLSConfig = sample_ClientTLSConfig and connectionKey = "''bad''"
         and insecure = False and fuel = 0 and world = closing
         and connectBackAddr = "''relay.example:4080''" and timeout = 5000000000
         and reconnectAfter = 0 and perr = "Errorf ''invalid connection key''"]
  have second: "runRemoteProxyRelay 0 sample_ParseConnectionKey sample_ClientTLSConfig closing
     ''relay.example:4080'' ''bad'' 5000000000 0 False =
     (Returned (Some (Wrap ''build TLS config''
        (Wrap ''parse connection key'' (Errorf ''invalid connection key'')))), [])"
    by blast
  from weak
    startup_errors_are_fatal
      [where ParseConnectionKey = sample_ParseConnectionKey
         and ClientTLSConfig = sample_ClientTLSConfig and connectionKey = "''0000''"
         and insecure = False and fuel = 7 and world = closing
         and connectBackAddr = "''relay.example:4080''" and timeout = 5000000000
         and reconnectAfter = 1000000000 and key = "''0000''"
         and cerr = "Errorf ''weak key''"]
  have third: "runRemoteProxyRelay 7 sample_ParseConnectionKey sample_ClientTLSConfig closing
     ''relay.example:4080'' ''0000'' 5000000000 1000000000 False =
     (Returned (Some (Wrap ''build TLS config''
        (Wrap ''configure TLS'' (Errorf ''weak key'')))), [])"
    by blast
  from none
    startup_errors_are_fatal
      [where ParseConnectionKey = sample_ParseConnectionKey
         and ClientTLSConfig = sample_ClientTLSConfig and connectionKey = "[]"
         and insecure = False and fuel = 7 and world = closing
         and connectBackAddr = "''relay.example:4080''" and timeout = 5000000000
         and reconnectAfter = 1000000000]
  have fourth: "runRemoteProxyRelay 7 sample_ParseConnectionKey sample_ClientTLSConfig closing
     ''relay.example:4080'' [] 5000000000 1000000000 False =
     (Returned (Some (Wrap ''build TLS config'' (Errorf ''connection key is required''))), [])"
    by blast
  from first second third fourth show ?thesis
    by (intro conjI)
qed

subsection \<open>One attempt\<close>

text \<open>
  C6: an attempt dials exactly once, first of all, with the target address, the TLS
  configuration and the timeout it was given. If the dial fails, nothing else happens
  and the error returned is the dial error wrapped with "dial". If it succeeds, the
  next event prints the remote address of the connection, and all that serves the
  session comes after it.
\<close>

theorem dial_phase_single_attempt:
  "\<exists>rest. snd (connectBackAndRelay w tlsConfig connectBackAddr timeout) =
            DialWithDialer timeout connectBackAddr tlsConfig (dial_result w) # rest
      \<and> filter is_dial rest = []
      \<and> (\<forall>err. dial_result w = Inl err \<longrightarrow>
            rest = [] \<and>
            fst (connectBackAndRelay w tlsConfig connectBackAddr timeout) =
              Some (Wrap ''dial'' err))
      \<and> (\<forall>conn. dial_result w = Inr conn \<longrightarrow>
            (\<exists>serving. rest =
               Printf (''connected to %s'' @ newline) (ArgAddr (RemoteAddr conn)) # serving))"
  by (auto simp add: connectBackAndRelay_def Let_def split: sum.splits option.splits)

theorem dial_phase_single_attempt_witness:
  "connectBackAndRelay (refusing 0) (sample_config ''k3y!'') ''relay.example:4080'' 5000000000 =
     (Some (Wrap ''dial'' (Errorf ''connection refused'')),
      [DialWithDialer 5000000000 ''relay.example:4080'' (sample_config ''k3y!'')
         (Inl (Errorf ''connection refused''))])
   \<and> take 2 (snd (connectBackAndRelay (closing 0) (sample_config ''k3y!'')
                      ''relay.example:4080'' 5000000000)) =
      [DialWithDialer 5000000000 ''relay.example:4080'' (sample_config ''k3y!'')
         (Inr (Conn ''203.0.113.7:4080'')),
       Printf (''connected to %s'' @ newline) (ArgAddr ''203.0.113.7:4080'')]"
proof -
  have r: "dial_result (refusing 0) = Inl (Errorf ''connection refused'')"
    by (simp add: refusing_def)
  have c: "dial_result (closing 0) = Inr (Conn ''203.0.113.7:4080'')"
    by (simp add: closing_def)
  from r dial_phase_single_attempt
         [of "refusing 0" "sample_config ''k3y!''" "''relay.example:4080''" 5000000000]
  have "snd (connectBackAndRelay (refusing 0) (sample_config ''k3y!'')
               ''relay.example:4080'' 5000000000) =
          [DialWithDialer 5000000000 ''relay.example:4080'' (sample_config ''k3y!'')
             (Inl (Errorf ''connection refused''))]
        \<and> fst (connectBackAndRelay (refusing 0) (sample_config ''k3y!'')
               ''relay.example:4080'' 5000000000) =
          Some (Wrap ''dial'' (Errorf ''connection refused''))"
    by auto
  then have first:
    "connectBackAndRelay (refusing 0) (sample_config ''k3y!'') ''relay.example:4080''
       5000000000 =
     (Some (Wrap ''dial'' (Errorf ''connection refused'')),
      [DialWithDialer 5000000000 ''relay.example:4080'' (sample_config ''k3y!'')
         (Inl (Errorf ''connection refused''))])"
    by (simp add: prod_eq_iff)
  from c dial_phase_single_attempt
         [of "closing 0" "sample_config ''k3y!''" "''relay.example:4080''" 5000000000]
  have second:
    "take 2 (snd (connectBackAndRelay (closing 0) (sample_config ''k3y!'')
                      ''relay.example:4080'' 5000000000)) =
      [DialWithDialer 5000000000 ''relay.example:4080'' (sample_config ''k3y!'')
         (Inr (Conn ''203.0.113.7:4080'')),
       Printf (''connected to %s'' @ newline) (ArgAddr ''203.0.113.7:4080'')]"
    by (auto simp add: numeral_2_eq_2)
  from first second show ?thesis by (rule conjI)
qed

text \<open>
  C7: after a successful dial, whatever the outcome of the attempt (the multiplexer
  cannot be initialised, the SOCKS5 server cannot be made, serving fails, serving ends
  cleanly), the trace ends with the deferred closes and nothing is closed before
  them. When the session was made, they close the session and then the connection,
  the reverse of the order in which the two were acquired; when it was not, they
  close the connection, the only resource there is. The returned value tells the
  four outcomes apart.
\<close>

theorem session_released_on_every_exit:
  assumes "dial_result w = Inr conn"
  shows "\<exists>before closing.
       snd (connectBackAndRelay w tlsConfig connectBackAddr timeout) = before @ closing
     \<and> released before = []
     \<and> acquired closing = []
     \<and> closing = (if yamux_result w = None
                   then [CloseSession (Session conn), CloseConn conn]
                   else [CloseConn conn])
     \<and> acquired before = (if yamux_result w = None
                   then [Connection conn, Multiplexed (Session conn)]
                   else [Connection conn])
     \<and> released closing = rev (acquired before)
     \<and> fst (connectBackAndRelay w tlsConfig connectBackAddr timeout) =
         (case yamux_result w of
            Some err \<Rightarrow> Some (Wrap ''initialize multiplexer'' err)
          | None \<Rightarrow>
              (case socks_result w of
                 Some err \<Rightarrow> Some (Wrap ''initialize socks5 server'' err)
               | None \<Rightarrow>
                   (case serve_result w of
                      Some err \<Rightarrow> Some (Wrap ''socks5 server'' err)
                    | None \<Rightarrow> None)))"
  using assms
  by (auto simp add: connectBackAndRelay_def Let_def acquired_def released_def
           split: sum.splits option.splits)

theorem session_released_on_every_exit_witness:
  "\<exists>before closing.
       snd (connectBackAndRelay (resetting 0) (sample_config ''k3y!'') ''relay.example:4080''
              5000000000) = before @ closing
     \<and> released before = []
     \<and> acquired closing = []
     \<and> closing = [CloseSession (Session (Conn ''203.0.113.7:4080'')),
                   CloseConn (Conn ''203.0.113.7:4080'')]
     \<and> acquired before = [Connection (Conn ''203.0.113.7:4080''),
                           Multiplexed (Session (Conn ''203.0.113.7:4080''))]
     \<and> released closing = rev (acquired before)
     \<and> fst (connectBackAndRelay (resetting 0) (sample_config ''k3y!'') ''relay.example:4080''
              5000000000) = Some (Wrap ''socks5 server'' (Errorf ''connection reset''))"
proof -
  have d: "dial_result (resetting 0) = Inr (Conn ''203.0.113.7:4080'')"
    by (simp add: resetting_def)
  have rest: "yamux_result (resetting 0) = None" "socks_result (resetting 0) = None"
    "serve_result (resetting 0) = Some (Errorf ''connection reset'')"
    by (simp_all add: resetting_def)
  from session_released_on_every_exit
         [OF d, of "sample_config ''k3y!''" "''relay.example:4080''" 5000000000]
  show ?thesis by (simp add: rest)
qed

subsection \<open>The loop, unfolded\<close>

text \<open>
  Without a reconnect delay one iteration decides the run. With one, no iteration
  returns, and the trace is the sequence of the iterations made so far.
\<close>

lemma relayLoop_no_reconnect:
  "relayLoop (Suc fuel) world i tlsConfig connectBackAddr timeout 0 =
     (Returned (fst (connectBackAndRelay (world i) tlsConfig connectBackAddr timeout)),
      snd (connectBackAndRelay (world i) tlsConfig connectBackAddr timeout))"
  by (simp split: prod.splits option.splits)

lemma relayLoop_Suc_reconnect:
  "reconnectAfter \<noteq> 0 \<Longrightarrow>
   relayLoop (Suc fuel) world i tlsConfig connectBackAddr timeout reconnectAfter =
     (fst (relayLoop fuel world (Suc i) tlsConfig connectBackAddr timeout reconnectAfter),
      iteration (world i) tlsConfig connectBackAddr timeout reconnectAfter
      @ snd (relayLoop fuel world (Suc i) tlsConfig connectBackAddr timeout reconnectAfter))"
  by (simp add: iteration_def split: prod.splits option.splits)

lemma relayLoop_reconnect:
  "reconnectAfter \<noteq> 0 \<Longrightarrow>
   relayLoop fuel world i tlsConfig connectBackAddr timeout reconnectAfter =
     (Running,
      concat (map (\<lambda>j. iteration (world j) tlsConfig connectBackAddr timeout reconnectAfter)
                [i ..< i + fuel]))"
proof (induction fuel arbitrary: i)
  case 0
  show ?case by simp
next
  case (Suc fuel)
  let ?it = "\<lambda>j. iteration (world j) tlsConfig connectBackAddr timeout reconnectAfter"
  have u: "[i ..< i + Suc fuel] = i # [Suc i ..< Suc i + fuel]"
    by (simp add: upt_rec)
  have "relayLoop (Suc fuel) world i tlsConfig connectBackAddr timeout reconnectAfter =
          (fst (relayLoop fuel world (Suc i) tlsConfig connectBackAddr timeout reconnectAfter),
           ?it i @ snd (relayLoop fuel world (Suc i) tlsConfig connectBackAddr timeout
                          reconnectAfter))"
    by (rule relayLoop_Suc_reconnect [OF Suc.prems])
  also have "\<dots> = (Running, ?it i @ concat (map ?it [Suc i ..< Suc i + fuel]))"
    by (simp only: Suc.IH [OF Suc.prems] fst_conv snd_conv)
  also have "\<dots> = (Running, concat (map ?it [i ..< i + Suc fuel]))"
    by (simp only: u list.map concat.simps)
  finally show ?case .
qed

lemma cbr_dials:
  "filter is_dial (snd (connectBackAndRelay w tlsConfig connectBackAddr timeout)) =
     [DialWithDialer timeout connectBackAddr tlsConfig (dial_result w)]"
  by (simp add: connectBackAndRelay_def Let_def split: sum.splits option.splits)

lemma cbr_sleeps: "sleeps (snd (connectBackAndRelay w tlsConfig connectBackAddr timeout)) = []"
  by (simp add: connectBackAndRelay_def Let_def sleeps_def split: sum.splits option.splits)

lemma cbr_reports: "reports (snd (connectBackAndRelay w tlsConfig connectBackAddr timeout)) = []"
  by (simp add: connectBackAndRelay_def Let_def reports_def newline_def split: sum.splits option.splits)

lemma sleeps_append: "sleeps (a @ b) = sleeps a @ sleeps b"
  by (simp add: sleeps_def)

lemma reports_append: "reports (a @ b) = reports a @ reports b"
  by (simp add: reports_def)

lemma iteration_dials:
  "filter is_dial (iteration w tlsConfig connectBackAddr timeout reconnectAfter) =
     [DialWithDialer timeout connectBackAddr tlsConfig (dial_result w)]"
  by (simp add: iteration_def cbr_dials split: option.splits)

lemma iteration_sleeps:
  "sleeps (iteration w tlsConfig connectBackAddr timeout reconnectAfter) = [reconnectAfter]"
  by (simp add: iteration_def sleeps_append cbr_sleeps split: option.splits)
     (simp add: sleeps_def)

lemma iteration_reports:
  "map Some (reports (iteration w tlsConfig connectBackAddr timeout reconnectAfter)) =
     (case fst (connectBackAndRelay w tlsConfig connectBackAddr timeout) of
        Some e \<Rightarrow> [Some e] | None \<Rightarrow> [])"
  by (simp add: iteration_def reports_append cbr_reports split: option.splits)
     (simp add: reports_def)

lemma iteration_shape:
  "\<exists>more. iteration w tlsConfig connectBackAddr timeout reconnectAfter =
     DialWithDialer timeout connectBackAddr tlsConfig (dial_result w) # more @ [Sleep reconnectAfter]"
  by (simp add: iteration_def connectBackAndRelay_def Let_def split: prod.splits option.splits sum.splits)

lemma map_const_upt: "map (\<lambda>j. d) [i ..< i + n] = replicate n d"
proof -
  have "map (\<lambda>j. d) [i ..< i + n] = replicate (length [i ..< i + n]) d"
    by (rule map_replicate_const)
  then show ?thesis by simp
qed

lemma sleeps_concat: "sleeps (concat tss) = concat (map sleeps tss)"
  by (induction tss) (simp_all add: sleeps_def)

lemma reports_concat: "reports (concat tss) = concat (map reports tss)"
  by (induction tss) (simp_all add: reports_def)

lemma relayLoop_sleeps:
  assumes "reconnectAfter \<noteq> 0"
  shows "sleeps (snd (relayLoop fuel world i tlsConfig connectBackAddr timeout reconnectAfter)) =
           replicate fuel reconnectAfter"
  by (simp add: relayLoop_reconnect [OF assms] sleeps_concat o_def iteration_sleeps
        map_const_upt)

lemma relayLoop_dials:
  assumes "reconnectAfter \<noteq> 0"
  shows "filter is_dial
           (snd (relayLoop fuel world i tlsConfig connectBackAddr timeout reconnectAfter)) =
         map (\<lambda>j. DialWithDialer timeout connectBackAddr tlsConfig (dial_result (world j)))
           [i ..< i + fuel]"
  by (simp add: relayLoop_reconnect [OF assms] filter_concat o_def iteration_dials)

lemma relayLoop_reports:
  assumes "reconnectAfter \<noteq> 0"
    and "\<forall>j. i \<le> j \<and> j < i + fuel \<longrightarrow>
           fst (connectBackAndRelay (world j) tlsConfig connectBackAddr timeout) \<noteq> None"
  shows "map Some
           (reports (snd (relayLoop fuel world i tlsConfig connectBackAddr timeout reconnectAfter))) =
         map (\<lambda>j. fst (connectBackAndRelay (world j) tlsConfig connectBackAddr timeout))
           [i ..< i + fuel]"
proof -
  let ?it = "\<lambda>j. iteration (world j) tlsConfig connectBackAddr timeout reconnectAfter"
  let ?err = "\<lambda>j. fst (connectBackAndRelay (world j) tlsConfig connectBackAddr timeout)"
  have one: "map Some (reports (?it j)) = [?err j]" if "j \<in> set [i ..< i + fuel]" for j
  proof -
    from that assms(2) obtain e where "?err j = Some e" by auto
    then show ?thesis by (simp add: iteration_reports)
  qed
  have "map Some (reports (concat (map ?it [i ..< i + fuel]))) =
          concat (map (\<lambda>j. map Some (reports (?it j))) [i ..< i + fuel])"
    by (simp add: reports_concat map_concat o_def)
  also have "\<dots> = concat (map (\<lambda>j. [?err j]) [i ..< i + fuel])"
  proof -
    have "map (\<lambda>j. map Some (reports (?it j))) [i ..< i + fuel] =
            map (\<lambda>j. [?err j]) [i ..< i + fuel]"
      by (rule map_cong [OF refl]) (rule one)
    then show ?thesis by (rule arg_cong)
  qed
  also have "\<dots> = map ?err [i ..< i + fuel]"
    by (rule concat_map_singleton)
  finally show ?thesis
    by (simp add: relayLoop_reconnect [OF assms(1)])
qed

lemma relayLoop_extends:
  assumes "reconnectAfter \<noteq> 0"
  shows "snd (relayLoop (Suc fuel) world 0 tlsConfig connectBackAddr timeout reconnectAfter) =
         snd (relayLoop fuel world 0 tlsConfig connectBackAddr timeout reconnectAfter)
         @ iteration (world fuel) tlsConfig connectBackAddr timeout reconnectAfter"
  by (simp add: relayLoop_reconnect [OF assms])


lemma positive_delay_nonzero: "(0::Duration) <s d \<Longrightarrow> d \<noteq> 0"
  by auto

lemma run_is_loop:
  "clientTLSConfig ParseConnectionKey ClientTLSConfig connectionKey insecure = Inr tlsConfig \<Longrightarrow>
   runRemoteProxyRelay fuel ParseConnectionKey ClientTLSConfig world connectBackAddr
     connectionKey timeout reconnectAfter insecure =
   relayLoop fuel world 0 tlsConfig connectBackAddr timeout reconnectAfter"
  by (simp add: runRemoteProxyRelay_def)

subsection \<open>Reconnect disabled\<close>

text \<open>
  C3: with a reconnect delay of zero and a TLS configuration built, the first
  iteration ends the run: the run returns what the one attempt returned, its error
  if it failed and nil if the session ended cleanly, and the trace is that of the one
  attempt, with a single dial and no sleep. A failed dial is returned wrapped with
  "dial", a failed serve wrapped with "socks5 server".
\<close>

theorem no_reconnect_returns_once:
  assumes "clientTLSConfig ParseConnectionKey ClientTLSConfig connectionKey insecure =
             Inr tlsConfig"
  shows "runRemoteProxyRelay (Suc fuel) ParseConnectionKey ClientTLSConfig world
           connectBackAddr connectionKey timeout 0 insecure =
         (Returned (fst (connectBackAndRelay (world 0) tlsConfig connectBackAddr timeout)),
          snd (connectBackAndRelay (world 0) tlsConfig connectBackAddr timeout))
     \<and> filter is_dial (snd (connectBackAndRelay (world 0) tlsConfig connectBackAddr timeout)) =
         [DialWithDialer timeout connectBackAddr tlsConfig (dial_result (world 0))]
     \<and> sleeps (snd (connectBackAndRelay (world 0) tlsConfig connectBackAddr timeout)) = []
     \<and> (\<forall>e. dial_result (world 0) = Inl e \<longrightarrow>
           fst (connectBackAndRelay (world 0) tlsConfig connectBackAddr timeout) =
             Some (Wrap ''dial'' e))
     \<and> (\<forall>conn e. dial_result (world 0) = Inr conn \<and> yamux_result (world 0) = None
           \<and> socks_result (world 0) = None \<and> serve_result (world 0) = Some e \<longrightarrow>
           fst (connectBackAndRelay (world 0) tlsConfig connectBackAddr timeout) =
             Some (Wrap ''socks5 server'' e))
     \<and> (\<forall>conn. dial_result (world 0) = Inr conn \<and> yamux_result (world 0) = None
           \<and> socks_result (world 0) = None \<and> serve_result (world 0) = None \<longrightarrow>
           fst (connectBackAndRelay (world 0) tlsConfig connectBackAddr timeout) = None)"
proof -
  let ?a = "connectBackAndRelay (world 0) tlsConfig connectBackAddr timeout"
  have run: "runRemoteProxyRelay (Suc fuel) ParseConnectionKey ClientTLSConfig world
               connectBackAddr connectionKey timeout 0 insecure = (Returned (fst ?a), snd ?a)"
    by (simp only: run_is_loop [OF assms] relayLoop_no_reconnect)
  have dial: "\<forall>e. dial_result (world 0) = Inl e \<longrightarrow> fst ?a = Some (Wrap ''dial'' e)"
    by (simp add: connectBackAndRelay_def)
  have serve: "\<forall>conn e. dial_result (world 0) = Inr conn \<and> yamux_result (world 0) = None
           \<and> socks_result (world 0) = None \<and> serve_result (world 0) = Some e \<longrightarrow>
           fst ?a = Some (Wrap ''socks5 server'' e)"
    by (simp add: connectBackAndRelay_def Let_def)
  have clean: "\<forall>conn. dial_result (world 0) = Inr conn \<and> yamux_result (world 0) = None
           \<and> socks_result (world 0) = None \<and> serve_result (world 0) = None \<longrightarrow>
           fst ?a = None"
    by (simp add: connectBackAndRelay_def Let_def)
  from run dial serve clean cbr_dials [of "world 0" tlsConfig connectBackAddr timeout]
    cbr_sleeps [of "world 0" tlsConfig connectBackAddr timeout]
  show ?thesis by blast
qed

theorem no_reconnect_returns_once_witness:
  "runRemoteProxyRelay (Suc 0) sample_ParseConnectionKey sample_ClientTLSConfig refusing
     ''relay.example:4080'' ''k3y!'' 5000000000 0 False =
     (Returned (Some (Wrap ''dial'' (Errorf ''connection refused''))),
      [DialWithDialer 5000000000 ''relay.example:4080'' (sample_config ''k3y!'')
         (Inl (Errorf ''connection refused''))])
   \<and> fst (runRemoteProxyRelay (Suc 0) sample_ParseConnectionKey sample_ClientTLSConfig
            resetting ''relay.example:4080'' ''k3y!'' 5000000000 0 False) =
     Returned (Some (Wrap ''socks5 server'' (Errorf ''connection reset'')))
   \<and> fst (runRemoteProxyRelay (Suc 0) sample_ParseConnectionKey sample_ClientTLSConfig
            closing ''relay.example:4080'' ''k3y!'' 5000000000 0 False) =
     Returned None"
proof -
  have r: "dial_result (refusing 0) = Inl (Errorf ''connection refused'')"
    by (simp add: refusing_def)
  have s: "dial_result (resetting 0) = Inr (Conn ''203.0.113.7:4080'')
      \<and> yamux_result (resetting 0) = None \<and> socks_result (resetting 0) = None
      \<and> serve_result (resetting 0) = Some (Errorf ''connection reset'')"
    by (simp add: resetting_def)
  have c: "dial_result (closing 0) = Inr (Conn ''203.0.113.7:4080'')
      \<and> yamux_result (closing 0) = None \<and> socks_result (closing 0) = None
      \<and> serve_result (closing 0) = None"
    by (simp add: closing_def)
  have t: "snd (connectBackAndRelay (refusing 0) (sample_config ''k3y!'')
                  ''relay.example:4080'' 5000000000) =
           [DialWithDialer 5000000000 ''relay.example:4080'' (sample_config ''k3y!'')
              (Inl (Errorf ''connection refused''))]"
    by (simp add: connectBackAndRelay_def refusing_def)
  from r t no_reconnect_returns_once
         [OF sample_tls_k3y, of 0 refusing "''relay.example:4080''" 5000000000]
  have first: "runRemoteProxyRelay (Suc 0) sample_ParseConnectionKey sample_ClientTLSConfig
     refusing ''relay.example:4080'' ''k3y!'' 5000000000 0 False =
     (Returned (Some (Wrap ''dial'' (Errorf ''connection refused''))),
      [DialWithDialer 5000000000 ''relay.example:4080'' (sample_config ''k3y!'')
         (Inl (Errorf ''connection refused''))])"
    by simp
  from s no_reconnect_returns_once
         [OF sample_tls_k3y, of 0 resetting "''relay.example:4080''" 5000000000]
  have second: "fst (runRemoteProxyRelay (Suc 0) sample_ParseConnectionKey
            sample_ClientTLSConfig resetting ''relay.example:4080'' ''k3y!'' 5000000000 0
            False) =
     Returned (Some (Wrap ''socks5 server'' (Errorf ''connection reset'')))"
    by simp
  from c no_reconnect_returns_once
         [OF sample_tls_k3y, of 0 closing "''relay.example:4080''" 5000000000]
  have third: "fst (runRemoteProxyRelay (Suc 0) sample_ParseConnectionKey
            sample_ClientTLSConfig closing ''relay.example:4080'' ''k3y!'' 5000000000 0
            False) = Returned None"
    by simp
  from first second third show ?thesis by simp
qed

subsection \<open>Reconnect enabled\<close>

text \<open>
  C4: with a positive reconnect delay and a TLS configuration built, let the first
  \<open>n\<close> attempts fail, for any \<open>n\<close>. After \<open>n\<close> iterations the loop has not returned; it
  has printed the \<open>n\<close> errors, in order; it has slept \<open>n\<close> times, each time for the
  configured delay; it has dialed \<open>n\<close> times, once per iteration; and the next
  iteration continues the trace with dial \<open>n + 1\<close> and ends with the same sleep.
\<close>

theorem reconnect_retries_forever:
  assumes "clientTLSConfig ParseConnectionKey ClientTLSConfig connectionKey insecure =
             Inr tlsConfig"
    and "0 <s reconnectAfter"
    and "\<forall>i<n. fst (connectBackAndRelay (world i) tlsConfig connectBackAddr timeout) \<noteq> None"
  shows "fst (runRemoteProxyRelay n ParseConnectionKey ClientTLSConfig world connectBackAddr
                connectionKey timeout reconnectAfter insecure) = Running
     \<and> map Some (reports (snd (runRemoteProxyRelay n ParseConnectionKey ClientTLSConfig world
                connectBackAddr connectionKey timeout reconnectAfter insecure))) =
         map (\<lambda>i. fst (connectBackAndRelay (world i) tlsConfig connectBackAddr timeout)) [0 ..< n]
     \<and> sleeps (snd (runRemoteProxyRelay n ParseConnectionKey ClientTLSConfig world
                connectBackAddr connectionKey timeout reconnectAfter insecure)) =
         replicate n reconnectAfter
     \<and> filter is_dial (snd (runRemoteProxyRelay n ParseConnectionKey ClientTLSConfig world
                connectBackAddr connectionKey timeout reconnectAfter insecure)) =
         map (\<lambda>i. DialWithDialer timeout connectBackAddr tlsConfig (dial_result (world i)))
           [0 ..< n]
     \<and> (\<exists>more. snd (runRemoteProxyRelay (Suc n) ParseConnectionKey ClientTLSConfig world
                connectBackAddr connectionKey timeout reconnectAfter insecure) =
           snd (runRemoteProxyRelay n ParseConnectionKey ClientTLSConfig world
                connectBackAddr connectionKey timeout reconnectAfter insecure)
           @ DialWithDialer timeout connectBackAddr tlsConfig (dial_result (world n)) # more
           @ [Sleep reconnectAfter])"
proof -
  have d: "reconnectAfter \<noteq> 0"
    by (rule positive_delay_nonzero [OF assms(2)])
  have failing: "\<forall>j. 0 \<le> j \<and> j < 0 + n \<longrightarrow>
      fst (connectBackAndRelay (world j) tlsConfig connectBackAddr timeout) \<noteq> None"
    using assms(3) by simp
  have running: "fst (relayLoop n world 0 tlsConfig connectBackAddr timeout reconnectAfter) =
      Running"
    by (simp add: relayLoop_reconnect [OF d])
  have reported: "map Some (reports (snd (relayLoop n world 0 tlsConfig connectBackAddr timeout
        reconnectAfter))) =
      map (\<lambda>i. fst (connectBackAndRelay (world i) tlsConfig connectBackAddr timeout)) [0 ..< n]"
    using relayLoop_reports [OF d failing] by simp
  have slept: "sleeps (snd (relayLoop n world 0 tlsConfig connectBackAddr timeout
        reconnectAfter)) = replicate n reconnectAfter"
    by (rule relayLoop_sleeps [OF d])
  have dialed: "filter is_dial (snd (relayLoop n world 0 tlsConfig connectBackAddr timeout
        reconnectAfter)) =
      map (\<lambda>i. DialWithDialer timeout connectBackAddr tlsConfig (dial_result (world i)))
        [0 ..< n]"
    using relayLoop_dials [OF d, of n world 0 tlsConfig connectBackAddr timeout] by simp
  have next_dial: "\<exists>more. snd (relayLoop (Suc n) world 0 tlsConfig connectBackAddr timeout
        reconnectAfter) =
      snd (relayLoop n world 0 tlsConfig connectBackAddr timeout reconnectAfter)
      @ DialWithDialer timeout connectBackAddr tlsConfig (dial_result (world n)) # more
      @ [Sleep reconnectAfter]"
    using iteration_shape [of "world n" tlsConfig connectBackAddr timeout reconnectAfter]
    by (simp only: relayLoop_extends [OF d]) auto
  from running reported slept dialed next_dial show ?thesis
    by (simp only: run_is_loop [OF assms(1)])
qed

theorem reconnect_retries_forever_witness:
  "fst (runRemoteProxyRelay 3 sample_ParseConnectionKey sample_ClientTLSConfig refusing
          ''relay.example:4080'' ''k3y!'' 5000000000 1000000000 False) = Running
   \<and> reports (snd (runRemoteProxyRelay 3 sample_ParseConnectionKey sample_ClientTLSConfig
          refusing ''relay.example:4080'' ''k3y!'' 5000000000 1000000000 False)) =
       [Wrap ''dial'' (Errorf ''connection refused''),
        Wrap ''dial'' (Errorf ''connection refused''),
        Wrap ''dial'' (Errorf ''connection refused'')]
   \<and> sleeps (snd (runRemoteProxyRelay 3 sample_ParseConnectionKey sample_ClientTLSConfig
          refusing ''relay.example:4080'' ''k3y!'' 5000000000 1000000000 False)) =
       [1000000000, 1000000000, 1000000000]
   \<and> length (filter is_dial (snd (runRemoteProxyRelay 3 sample_ParseConnectionKey
          sample_ClientTLSConfig refusing ''relay.example:4080'' ''k3y!'' 5000000000
          1000000000 False))) = 3"
proof -
  have delay: "(0::Duration) <s 1000000000"
    by (simp add: word_sless_alt)
  have a: "fst (connectBackAndRelay (refusing i) (sample_config ''k3y!'')
                  ''relay.example:4080'' 5000000000) =
           Some (Wrap ''dial'' (Errorf ''connection refused''))" for i
    by (simp add: connectBackAndRelay_def refusing_def)
  have failing: "\<forall>i<3. fst (connectBackAndRelay (refusing i) (sample_config ''k3y!'')
                  ''relay.example:4080'' 5000000000) \<noteq> None"
    by (simp add: a)
  have three: "[0 ..< 3] = [0, Suc 0, Suc (Suc 0)]"
    by (simp add: upt_rec numeral_3_eq_3)
  let ?run = "runRemoteProxyRelay 3 sample_ParseConnectionKey sample_ClientTLSConfig refusing
          ''relay.example:4080'' ''k3y!'' 5000000000 1000000000 False"
  let ?e = "Wrap ''dial'' (Errorf ''connection refused'')"
  from reconnect_retries_forever [OF sample_tls_k3y delay failing]
  have inst: "fst ?run = Running
   \<and> map Some (reports (snd ?run)) = map Some [?e, ?e, ?e]
   \<and> sleeps (snd ?run) = replicate 3 1000000000
   \<and> length (filter is_dial (snd ?run)) = 3"
    by (simp add: a three)
  from inst have running: "fst ?run = Running"
    by (rule conjunct1)
  from inst have "map Some (reports (snd ?run)) = map Some [?e, ?e, ?e]"
    by simp
  then have reported: "reports (snd ?run) = [?e, ?e, ?e]"
    by (simp only: inj_map_eq_map [OF inj_Some])
  have "replicate 3 (1000000000::Duration) = [1000000000, 1000000000, 1000000000]"
    by (simp add: numeral_3_eq_3)
  with inst have slept: "sleeps (snd ?run) = [1000000000, 1000000000, 1000000000]"
    by simp
  from inst have dialed: "length (filter is_dial (snd ?run)) = 3"
    by simp
  from running reported slept dialed show ?thesis
    by (intro conjI)
qed

text \<open>
  C9: with a positive reconnect delay, once the TLS configuration has been built, the
  run has not returned after any number of iterations, whatever the attempts do. A
  first session that ends cleanly is followed by the announcement, the sleep and the
  second dial, as a failed one is. So a run that returns nil has a reconnect delay of
  zero.
\<close>

theorem reconnect_never_returns:
  "(\<forall>tlsConfig.
      clientTLSConfig ParseConnectionKey ClientTLSConfig connectionKey insecure = Inr tlsConfig
      \<and> 0 <s reconnectAfter \<longrightarrow>
        fst (runRemoteProxyRelay fuel ParseConnectionKey ClientTLSConfig world
               connectBackAddr connectionKey timeout reconnectAfter insecure) = Running
      \<and> (fst (connectBackAndRelay (world 0) tlsConfig connectBackAddr timeout) = None \<longrightarrow>
          (\<exists>later. snd (runRemoteProxyRelay (Suc (Suc fuel)) ParseConnectionKey ClientTLSConfig
                 world connectBackAddr connectionKey timeout reconnectAfter insecure) =
             snd (connectBackAndRelay (world 0) tlsConfig connectBackAddr timeout)
             @ [Printf (''reconnecting after %v'' @ newline) (ArgDuration reconnectAfter),
                Sleep reconnectAfter,
                DialWithDialer timeout connectBackAddr tlsConfig (dial_result (world (Suc 0)))]
             @ later)))
   \<and> (fst (runRemoteProxyRelay fuel ParseConnectionKey ClientTLSConfig world
               connectBackAddr connectionKey timeout reconnectAfter insecure) = Returned None
        \<longrightarrow> reconnectAfter = 0)"
proof (intro conjI allI impI)
  fix tlsConfig
  assume h: "clientTLSConfig ParseConnectionKey ClientTLSConfig connectionKey insecure =
      Inr tlsConfig \<and> 0 <s reconnectAfter"
  then have d: "reconnectAfter \<noteq> 0"
    by (simp add: positive_delay_nonzero)
  from h have cfg: "clientTLSConfig ParseConnectionKey ClientTLSConfig connectionKey insecure =
      Inr tlsConfig" by simp
  show "fst (runRemoteProxyRelay fuel ParseConnectionKey ClientTLSConfig world
               connectBackAddr connectionKey timeout reconnectAfter insecure) = Running"
    by (simp add: run_is_loop [OF cfg] relayLoop_reconnect [OF d])
  assume clean: "fst (connectBackAndRelay (world 0) tlsConfig connectBackAddr timeout) = None"
  obtain more where more:
    "iteration (world (Suc 0)) tlsConfig connectBackAddr timeout reconnectAfter =
       DialWithDialer timeout connectBackAddr tlsConfig (dial_result (world (Suc 0)))
       # more @ [Sleep reconnectAfter]"
    using iteration_shape [of "world (Suc 0)" tlsConfig connectBackAddr timeout reconnectAfter]
    by blast
  have step: "snd (relayLoop (Suc (Suc fuel)) world 0 tlsConfig connectBackAddr timeout
               reconnectAfter) =
        iteration (world 0) tlsConfig connectBackAddr timeout reconnectAfter
        @ iteration (world (Suc 0)) tlsConfig connectBackAddr timeout reconnectAfter
        @ snd (relayLoop fuel world (Suc (Suc 0)) tlsConfig connectBackAddr timeout
                 reconnectAfter)"
    by (simp only: relayLoop_Suc_reconnect [OF d] snd_conv)
  show "\<exists>later. snd (runRemoteProxyRelay (Suc (Suc fuel)) ParseConnectionKey
                 ClientTLSConfig world connectBackAddr connectionKey timeout reconnectAfter
                 insecure) =
             snd (connectBackAndRelay (world 0) tlsConfig connectBackAddr timeout)
             @ [Printf (''reconnecting after %v'' @ newline) (ArgDuration reconnectAfter),
                Sleep reconnectAfter,
                DialWithDialer timeout connectBackAddr tlsConfig (dial_result (world (Suc 0)))]
             @ later"
    unfolding run_is_loop [OF cfg] step more
    by (simp add: iteration_def clean)
next
  assume r: "fst (runRemoteProxyRelay fuel ParseConnectionKey ClientTLSConfig world
               connectBackAddr connectionKey timeout reconnectAfter insecure) = Returned None"
  show "reconnectAfter = 0"
  proof (rule ccontr)
    assume d: "reconnectAfter \<noteq> 0"
    show False
    proof (cases "clientTLSConfig ParseConnectionKey ClientTLSConfig connectionKey insecure")
      case (Inl err)
      with r show False by (simp add: runRemoteProxyRelay_def)
    next
      case (Inr tlsConfig)
      with r show False
        by (simp add: run_is_loop [OF Inr] relayLoop_reconnect [OF d])
    qed
  qed
qed

theorem reconnect_never_returns_witness:
  "fst (runRemoteProxyRelay 3 sample_ParseConnectionKey sample_ClientTLSConfig closing
          ''relay.example:4080'' ''k3y!'' 5000000000 1000000000 False) = Running
   \<and> (\<exists>later. snd (runRemoteProxyRelay (Suc (Suc 0)) sample_ParseConnectionKey
          sample_ClientTLSConfig closing ''relay.example:4080'' ''k3y!'' 5000000000
          1000000000 False) =
        snd (connectBackAndRelay (closing 0) (sample_config ''k3y!'') ''relay.example:4080''
               5000000000)
        @ [Printf (''reconnecting after %v'' @ newline) (ArgDuration 1000000000),
           Sleep 1000000000,
           DialWithDialer 5000000000 ''relay.example:4080'' (sample_config ''k3y!'')
             (Inr (Conn ''203.0.113.7:4080''))]
        @ later)
   \<and> fst (runRemoteProxyRelay (Suc 0) sample_ParseConnectionKey sample_ClientTLSConfig
          closing ''relay.example:4080'' ''k3y!'' 5000000000 0 False) = Returned None
   \<and> (0::Duration) = 0"
proof -
  have delay: "(0::Duration) <s 1000000000"
    by (simp add: word_sless_alt)
  have clean: "fst (connectBackAndRelay (closing 0) (sample_config ''k3y!'')
                      ''relay.example:4080'' 5000000000) = None"
    by (simp add: connectBackAndRelay_def closing_def Let_def)
  have second: "dial_result (closing (Suc 0)) = Inr (Conn ''203.0.113.7:4080'')"
    by (simp add: closing_def)
  have returned_nil: "fst (runRemoteProxyRelay (Suc 0) sample_ParseConnectionKey
          sample_ClientTLSConfig closing ''relay.example:4080'' ''k3y!'' 5000000000 0
          False) = Returned None"
    by (simp only: run_is_loop [OF sample_tls_k3y] relayLoop_no_reconnect fst_conv clean)
  from sample_tls_k3y delay
    reconnect_never_returns
      [where ParseConnectionKey = sample_ParseConnectionKey
         and ClientTLSConfig = sample_ClientTLSConfig and connectionKey = "''k3y!''"
         and insecure = False and reconnectAfter = 1000000000 and fuel = 3
         and world = closing and connectBackAddr = "''relay.example:4080''"
         and timeout = 5000000000]
  have running: "fst (runRemoteProxyRelay 3 sample_ParseConnectionKey sample_ClientTLSConfig
          closing ''relay.example:4080'' ''k3y!'' 5000000000 1000000000 False) = Running"
    by blast
  from sample_tls_k3y delay clean
    reconnect_never_returns
      [where ParseConnectionKey = sample_ParseConnectionKey
         and ClientTLSConfig = sample_ClientTLSConfig and connectionKey = "''k3y!''"
         and insecure = False and reconnectAfter = 1000000000 and fuel = 0
         and world = closing and connectBackAddr = "''relay.example:4080''"
         and timeout = 5000000000]
  have redial: "\<exists>later. snd (runRemoteProxyRelay (Suc (Suc 0)) sample_ParseConnectionKey
          sample_ClientTLSConfig closing ''relay.example:4080'' ''k3y!'' 5000000000
          1000000000 False) =
        snd (connectBackAndRelay (closing 0) (sample_config ''k3y!'') ''relay.example:4080''
               5000000000)
        @ [Printf (''reconnecting after %v'' @ newline) (ArgDuration 1000000000),
           Sleep 1000000000,
           DialWithDialer 5000000000 ''relay.example:4080'' (sample_config ''k3y!'')
             (Inr (Conn ''203.0.113.7:4080''))]
        @ later"
    unfolding second [symmetric] by blast
  from returned_nil
    reconnect_never_returns
      [where ParseConnectionKey = sample_ParseConnectionKey
         and ClientTLSConfig = sample_ClientTLSConfig and connectionKey = "''k3y!''"
         and insecure = False and reconnectAfter = 0 and fuel = "Suc 0"
         and world = closing and connectBackAddr = "''relay.example:4080''"
         and timeout = 5000000000]
  have disabled: "(0::Duration) = 0"
    by blast
  from running redial returned_nil disabled show ?thesis
    by (intro conjI)
qed

text \<open>
  C9, the limit of it: when no configuration can be built the run does return under a
  positive reconnect delay. With an empty key and without \<open>insecure\<close> it returns the
  startup error before the loop is entered.
\<close>

theorem reconnect_never_returns_counterexample:
  "(0::Duration) <s 1000000000
   \<and> fst (runRemoteProxyRelay 3 sample_ParseConnectionKey sample_ClientTLSConfig closing
          ''relay.example:4080'' [] 5000000000 1000000000 False) =
       Returned (Some (Wrap ''build TLS config'' (Errorf ''connection key is required'')))
   \<and> fst (runRemoteProxyRelay 3 sample_ParseConnectionKey sample_ClientTLSConfig closing
          ''relay.example:4080'' [] 5000000000 1000000000 False) \<noteq> Running"
  by (simp add: word_sless_alt runRemoteProxyRelay_def clientTLSConfig_def)

subsection \<open>One session at a time\<close>

lemma orderly_append:
  "orderly h (p @ q) = (orderly h p \<and> orderly (foldl hold h p) q)"
  by (induction p arbitrary: h) auto

lemma hold_simps:
  "hold h (DialWithDialer timeout addr cfg (Inr c)) = Connection c # h"
  "hold h (DialWithDialer timeout addr cfg (Inl err)) = h"
  "hold h (YamuxServer c None) = Multiplexed (Session c) # h"
  "hold h (YamuxServer c (Some err)) = h"
  "hold h (CloseSession s) = remove1 (Multiplexed s) h"
  "hold h (CloseConn c) = remove1 (Connection c) h"
  "hold h (Printf fmt a) = h"
  "hold h (Socks5New r) = h"
  "hold h (Serve s r) = h"
  "hold h (Sleep d) = h"
  by (simp_all add: hold_def)

lemma attempt_orderly:
  "orderly [] (snd (connectBackAndRelay w tlsConfig connectBackAddr timeout))
   \<and> foldl hold [] (snd (connectBackAndRelay w tlsConfig connectBackAddr timeout)) = []"
  by (simp add: connectBackAndRelay_def Let_def hold_simps split: sum.splits option.splits)

lemma iteration_orderly:
  "orderly [] (iteration w tlsConfig connectBackAddr timeout reconnectAfter)
   \<and> foldl hold [] (iteration w tlsConfig connectBackAddr timeout reconnectAfter) = []"
  using attempt_orderly [of w tlsConfig connectBackAddr timeout]
  by (simp add: iteration_def orderly_append hold_simps split: option.splits)

lemma concat_orderly:
  "(\<And>t. t \<in> set tss \<Longrightarrow> orderly [] t \<and> foldl hold [] t = []) \<Longrightarrow>
   orderly [] (concat tss) \<and> foldl hold [] (concat tss) = []"
  by (induction tss) (simp_all add: orderly_append)

lemma relayLoop_orderly:
  "orderly [] (snd (relayLoop fuel world i tlsConfig connectBackAddr timeout reconnectAfter))
   \<and> foldl hold [] (snd (relayLoop fuel world i tlsConfig connectBackAddr timeout reconnectAfter)) = []"
proof (cases "reconnectAfter = 0")
  case True
  show ?thesis
  proof (cases fuel)
    case 0
    then show ?thesis by simp
  next
    case (Suc n)
    then show ?thesis
      using attempt_orderly [of "world i" tlsConfig connectBackAddr timeout]
      by (simp only: True relayLoop_no_reconnect snd_conv)
  qed
next
  case False
  have "orderly [] (concat (map (\<lambda>j. iteration (world j) tlsConfig connectBackAddr timeout
                                      reconnectAfter) [i ..< i + fuel]))
      \<and> foldl hold [] (concat (map (\<lambda>j. iteration (world j) tlsConfig connectBackAddr timeout
                                      reconnectAfter) [i ..< i + fuel])) = []"
    by (rule concat_orderly) (auto simp add: iteration_orderly)
  then show ?thesis
    by (simp only: relayLoop_reconnect [OF False] snd_conv)
qed

lemma permitted_one_session:
  "one_session h \<Longrightarrow> permitted h e \<Longrightarrow> one_session (hold h e)"
proof (cases e)
  case (DialWithDialer timeout addr cfg r)
  assume "permitted h e"
  with DialWithDialer show ?thesis
    by (cases r) (simp_all add: hold_simps)
next
  case (YamuxServer c r)
  assume "permitted h e"
  with YamuxServer show ?thesis
    by (cases r) (simp_all add: hold_simps)
next
  case (CloseSession s)
  assume "permitted h e"
  with CloseSession show ?thesis
    by (cases s) (simp add: hold_simps)
next
  case (CloseConn c)
  assume "permitted h e"
  with CloseConn show ?thesis
    by (simp add: hold_simps)
qed (simp_all add: hold_simps)

lemma orderly_one_session:
  "one_session h \<Longrightarrow> orderly h p \<Longrightarrow> one_session (foldl hold h p)"
  by (induction p arbitrary: h) (simp_all add: permitted_one_session)

lemma orderly_split:
  assumes "orderly [] (p @ e # s)"
  shows "one_session (active p) \<and> permitted (active p) e"
proof -
  from assms have p: "orderly [] p" and e: "permitted (foldl hold [] p) e"
    by (simp_all add: orderly_append)
  have "one_session []" by simp
  from orderly_one_session [OF this p] e show ?thesis
    by (simp add: active_def)
qed

text \<open>
  C8: at every point of every run at most one relay session is open: one connection,
  with or without the one multiplexed session over it, or nothing. A dial happens
  only when nothing is open, so after the session before it has been closed, session
  and connection; serving happens on the session that is open, over the one
  connection. After the iterations made so far nothing is left open.
\<close>

theorem one_session_at_a_time:
  "active (snd (runRemoteProxyRelay fuel ParseConnectionKey ClientTLSConfig world
                  connectBackAddr connectionKey timeout reconnectAfter insecure)) = []
   \<and> (\<forall>p e s.
        snd (runRemoteProxyRelay fuel ParseConnectionKey ClientTLSConfig world
               connectBackAddr connectionKey timeout reconnectAfter insecure) = p @ e # s \<longrightarrow>
        one_session (active p)
        \<and> (is_dial e \<longrightarrow> active p = [])
        \<and> (\<forall>ses r. e = Serve ses r \<longrightarrow> (\<exists>c. active p = [Multiplexed ses, Connection c])))"
proof -
  let ?t = "snd (runRemoteProxyRelay fuel ParseConnectionKey ClientTLSConfig world
                  connectBackAddr connectionKey timeout reconnectAfter insecure)"
  have t: "orderly [] ?t \<and> foldl hold [] ?t = []"
    by (cases "clientTLSConfig ParseConnectionKey ClientTLSConfig connectionKey insecure")
       (simp_all add: runRemoteProxyRelay_def relayLoop_orderly)
  have "one_session (active p) \<and> (is_dial e \<longrightarrow> active p = [])
        \<and> (\<forall>ses r. e = Serve ses r \<longrightarrow> (\<exists>c. active p = [Multiplexed ses, Connection c]))"
    if split: "?t = p @ e # s" for p e s
  proof -
    from t split have "orderly [] (p @ e # s)" by simp
    then have o: "one_session (active p)" and a: "permitted (active p) e"
      by (simp_all add: orderly_split)
    from a have "is_dial e \<longrightarrow> active p = []"
      by (cases e) simp_all
    moreover from a have "\<forall>ses r. e = Serve ses r \<longrightarrow> (\<exists>c. active p = [Multiplexed ses, Connection c])"
      by (cases e) (auto split: session.splits)
    ultimately show ?thesis using o by simp
  qed
  with t show ?thesis by (simp add: active_def)
qed


theorem one_session_at_a_time_witness:
  "snd (runRemoteProxyRelay (Suc (Suc 0)) sample_ParseConnectionKey sample_ClientTLSConfig
          closing ''relay.example:4080'' ''k3y!'' 5000000000 1000000000 False) =
     iteration (closing 0) (sample_config ''k3y!'') ''relay.example:4080'' 5000000000
       1000000000
     @ DialWithDialer 5000000000 ''relay.example:4080'' (sample_config ''k3y!'')
         (Inr (Conn ''203.0.113.7:4080''))
     # tl (iteration (closing (Suc 0)) (sample_config ''k3y!'') ''relay.example:4080''
            5000000000 1000000000)
   \<and> active (iteration (closing 0) (sample_config ''k3y!'') ''relay.example:4080''
               5000000000 1000000000) = []
   \<and> acquired (iteration (closing 0) (sample_config ''k3y!'') ''relay.example:4080''
               5000000000 1000000000) =
       [Connection (Conn ''203.0.113.7:4080''),
        Multiplexed (Session (Conn ''203.0.113.7:4080''))]
   \<and> snd (runRemoteProxyRelay (Suc 0) sample_ParseConnectionKey sample_ClientTLSConfig
          closing ''relay.example:4080'' ''k3y!'' 5000000000 0 False) =
     [DialWithDialer 5000000000 ''relay.example:4080'' (sample_config ''k3y!'')
        (Inr (Conn ''203.0.113.7:4080'')),
      Printf (''connected to %s'' @ newline) (ArgAddr ''203.0.113.7:4080''),
      YamuxServer (Conn ''203.0.113.7:4080'') None,
      Socks5New None]
     @ Serve (Session (Conn ''203.0.113.7:4080'')) None
     # [CloseSession (Session (Conn ''203.0.113.7:4080'')),
        CloseConn (Conn ''203.0.113.7:4080'')]
   \<and> (\<exists>c. active
          [DialWithDialer 5000000000 ''relay.example:4080'' (sample_config ''k3y!'')
             (Inr (Conn ''203.0.113.7:4080'')),
           Printf (''connected to %s'' @ newline) (ArgAddr ''203.0.113.7:4080''),
           YamuxServer (Conn ''203.0.113.7:4080'') None,
           Socks5New None] =
          [Multiplexed (Session (Conn ''203.0.113.7:4080'')), Connection c])"
proof -
  let ?p = "iteration (closing 0) (sample_config ''k3y!'') ''relay.example:4080'' 5000000000
       1000000000"
  let ?e = "DialWithDialer 5000000000 ''relay.example:4080'' (sample_config ''k3y!'')
         (Inr (Conn ''203.0.113.7:4080''))"
  let ?s = "tl (iteration (closing (Suc 0)) (sample_config ''k3y!'') ''relay.example:4080''
            5000000000 1000000000)"
  let ?q = "[?e, Printf (''connected to %s'' @ newline) (ArgAddr ''203.0.113.7:4080''),
      YamuxServer (Conn ''203.0.113.7:4080'') None, Socks5New None]"
  let ?serve = "Serve (Session (Conn ''203.0.113.7:4080'')) None"
  let ?closes = "[CloseSession (Session (Conn ''203.0.113.7:4080'')),
        CloseConn (Conn ''203.0.113.7:4080'')]"
  have d: "(1000000000::Duration) \<noteq> 0" by simp
  have second: "iteration (closing (Suc 0)) (sample_config ''k3y!'') ''relay.example:4080''
            5000000000 1000000000 = ?e # ?s"
    by (simp add: iteration_def connectBackAndRelay_def closing_def Let_def)
  have split: "snd (runRemoteProxyRelay (Suc (Suc 0)) sample_ParseConnectionKey
          sample_ClientTLSConfig closing ''relay.example:4080'' ''k3y!'' 5000000000
          1000000000 False) = ?p @ ?e # ?s"
    unfolding second [symmetric]
    by (simp only: run_is_loop [OF sample_tls_k3y] relayLoop_Suc_reconnect [OF d] snd_conv
          relayLoop.simps(1) append_Nil2)
  have dial: "is_dial ?e" by simp
  from split dial
    one_session_at_a_time
      [where ParseConnectionKey = sample_ParseConnectionKey
         and ClientTLSConfig = sample_ClientTLSConfig and connectionKey = "''k3y!''"
         and insecure = False and reconnectAfter = 1000000000 and fuel = "Suc (Suc 0)"
         and world = closing and connectBackAddr = "''relay.example:4080''"
         and timeout = 5000000000]
  have nothing_open: "active ?p = []"
    by blast
  have opened: "acquired ?p =
       [Connection (Conn ''203.0.113.7:4080''),
        Multiplexed (Session (Conn ''203.0.113.7:4080''))]"
    by (simp add: iteration_def connectBackAndRelay_def closing_def acquired_def Let_def)
  have attempt: "snd (connectBackAndRelay (closing 0) (sample_config ''k3y!'')
          ''relay.example:4080'' 5000000000) = ?q @ ?serve # ?closes"
    by (simp add: connectBackAndRelay_def closing_def Let_def)
  have once: "snd (runRemoteProxyRelay (Suc 0) sample_ParseConnectionKey
          sample_ClientTLSConfig closing ''relay.example:4080'' ''k3y!'' 5000000000 0
          False) = ?q @ ?serve # ?closes"
    by (simp only: run_is_loop [OF sample_tls_k3y] relayLoop_no_reconnect snd_conv attempt)
  from once
    one_session_at_a_time
      [where ParseConnectionKey = sample_ParseConnectionKey
         and ClientTLSConfig = sample_ClientTLSConfig and connectionKey = "''k3y!''"
         and insecure = False and reconnectAfter = 0 and fuel = "Suc 0"
         and world = closing and connectBackAddr = "''relay.example:4080''"
         and timeout = 5000000000]
  have serving: "\<exists>c. active ?q = [Multiplexed (Session (Conn ''203.0.113.7:4080'')), Connection c]"
    by blast
  from split nothing_open opened once serving show ?thesis
    by (intro conjI)
qed

end
